theory Spec2Isabelle
  imports
    Main
    "HOL-Library.Sublist"
    "HOL-Library.Char_ord"
    "HOL-Library.List_Lexorder"
    "HOL-Library.Product_Lexorder"
begin

section \<open>Python values used by \<open>schema_utils.py\<close> and \<open>llm_utils.py\<close>\<close>

text \<open>
  A Python \<open>str\<close> is modelled as a \<open>string\<close> holding its UTF-8 bytes. A Python \<open>dict\<close>
  keeps its keys in insertion order, and the generated SQL depends on that order, so a
  dictionary is an association list: the items in insertion order. A list whose keys are
  pairwise different is a dictionary; the functions below are defined on every
  association list, reading it as the sequence of its items.
\<close>

type_synonym ('k, 'v) dict = "('k \<times> 'v) list"

type_synonym schema = "(string, string) dict"

abbreviation keys :: "('k, 'v) dict \<Rightarrow> 'k list" where
  "keys d \<equiv> map fst d"

text \<open>
  \<open>d[k] = v\<close>: an existing key keeps its position and takes the new value, a new key goes
  to the end.
\<close>

fun setitem :: "('k, 'v) dict \<Rightarrow> 'k \<Rightarrow> 'v \<Rightarrow> ('k, 'v) dict" where
  "setitem [] k v = [(k, v)]"
| "setitem ((k', v') # d) k v =
     (if k' = k then (k, v) # d else (k', v') # setitem d k v)"

text \<open>
  A dictionary comprehension \<open>{key: value for ...}\<close> stores the generated items one after
  the other into an empty dictionary.
\<close>

definition dict_of_items :: "('k \<times> 'v) list \<Rightarrow> ('k, 'v) dict" where
  "dict_of_items items = fold (\<lambda>(k, v) d. setitem d k v) items []"

text \<open>
  \<open>str.upper()\<close>, on the ASCII letters: \<open>a\<close> to \<open>z\<close> become \<open>A\<close> to \<open>Z\<close> and every other
  byte is kept. (Python also maps the cased letters beyond ASCII. The general theorems
  on \<open>compare_schemas\<close> do not unfold \<open>upper\<close>, they hold for any function on strings
  in its place; \<open>upper\<close> is unfolded only to evaluate concrete inputs and to show that it
  brings no space and no newline into a name.)
\<close>

definition upper_char :: "char \<Rightarrow> char" where
  "upper_char c =
     (case map_of (zip ''abcdefghijklmnopqrstuvwxyz'' ''ABCDEFGHIJKLMNOPQRSTUVWXYZ'') c of
        Some u \<Rightarrow> u
      | None \<Rightarrow> c)"

definition upper :: "string \<Rightarrow> string" where
  "upper s = map upper_char s"

section \<open>Schema comparison\<close>

text \<open>
  \<^verbatim>\<open>
  def compare_schemas(existing, new):
      existing = {k.upper(): v for k, v in existing.items()}
      new = {k.upper(): v for k, v in new.items()}
      new_cols = {col: new[col] for col in new if col not in existing}
      missing_cols = {col: existing[col] for col in existing if col not in new}
      conflicts = {col: (existing[col], new[col]) for col in existing
                   if col in new and existing[col] != new[col]}
      return new_cols, missing_cols, conflicts
  \<close>
  After the first two lines \<open>existing\<close> and \<open>new\<close> are dictionaries, so \<open>for col in d\<close>
  together with \<open>d[col]\<close> runs through the items \<open>(col, d[col])\<close> of \<open>d\<close> in order
  (lemma \<open>upper_keys_item\<close> below). \<open>col in d\<close> is \<open>map_of d col \<noteq> None\<close> and the
  lookup \<open>new[col]\<close>, made only under \<open>col in new\<close>, is the value of \<open>map_of new col\<close>.
\<close>

definition upper_keys :: "schema \<Rightarrow> schema" where
  "upper_keys d = dict_of_items [(upper k, v). (k, v) \<leftarrow> d]"

definition compare_schemas ::
  "schema \<Rightarrow> schema \<Rightarrow> schema \<times> schema \<times> (string, string \<times> string) dict" where
  "compare_schemas existing new =
     (let existing = upper_keys existing;
          new = upper_keys new;
          new_cols = dict_of_items
            [(col, t). (col, t) \<leftarrow> new, map_of existing col = None];
          missing_cols = dict_of_items
            [(col, t). (col, t) \<leftarrow> existing, map_of new col = None];
          conflicts = dict_of_items
            [(col, (old_type, new_type)).
               (col, old_type) \<leftarrow> existing,
               new_type \<leftarrow> (case map_of new col of None \<Rightarrow> [] | Some t \<Rightarrow> [t]),
               old_type \<noteq> new_type]
      in (new_cols, missing_cols, conflicts))"

section \<open>Strings\<close>

text \<open>
  \<open>sep.join(xs)\<close>, and \<open>s.split(c)\<close> for a separator of one character; the lines of a
  text are \<open>split_on\<close> at the newline character. Python's \<open>sub in s\<close> on strings is
  \<^const>\<open>sublist\<close>, \<open>s.startswith(p)\<close> is \<^const>\<open>prefix\<close>.
\<close>

abbreviation NL :: char where
  "NL \<equiv> CHR 0x0A"

fun join :: "string \<Rightarrow> string list \<Rightarrow> string" where
  "join sep [] = []"
| "join sep [x] = x"
| "join sep (x # y # ys) = x @ sep @ join sep (y # ys)"

fun split_on :: "'a \<Rightarrow> 'a list \<Rightarrow> 'a list list" where
  "split_on c [] = [[]]"
| "split_on c (x # xs) =
     (if x = c then [] # split_on c xs
      else (x # hd (split_on c xs)) # tl (split_on c xs))"



section \<open>SQL generation\<close>

text \<open>
  \<^verbatim>\<open>
  def generate_sql_with_ai(existing, new, table_name):
      new_cols, missing_cols, conflicts = compare_schemas(existing, new)
      sql_statements = []
      for col, dtype in new_cols.items():
          sql_statements.append(f"ALTER TABLE {table_name} ADD COLUMN {col} {dtype} NULL;")
      for col, dtype in missing_cols.items():
          sql_statements.append(f"-- NOTE: Column {col} ({dtype}) exists in old schema but not in new. Drop only if intentional.")
      for col, (old_type, new_type) in conflicts.items():
          sql_statements.append(f"ALTER TABLE {table_name} ALTER COLUMN {col} SET DATA TYPE {new_type};")
      if not sql_statements:
          return "-- No schema changes detected. No ALTER TABLE needed."
      return "\n".join(sql_statements)
  \<close>
  Each loop is a \<open>fold\<close> over the items that appends to \<open>sql_statements\<close>.
\<close>

definition generate_sql_with_ai :: "schema \<Rightarrow> schema \<Rightarrow> string \<Rightarrow> string" where
  "generate_sql_with_ai existing new table_name =
     (let (new_cols, missing_cols, conflicts) = compare_schemas existing new;
          sql_statements = [];
          sql_statements = fold (\<lambda>(col, dtype) acc. acc @
              [''ALTER TABLE '' @ table_name @ '' ADD COLUMN '' @ col @ '' '' @ dtype @ '' NULL;''])
            new_cols sql_statements;
          sql_statements = fold (\<lambda>(col, dtype) acc. acc @
              [''-- NOTE: Column '' @ col @ '' ('' @ dtype @
               '') exists in old schema but not in new. Drop only if intentional.''])
            missing_cols sql_statements;
          sql_statements = fold (\<lambda>(col, (old_type, new_type)) acc. acc @
              [''ALTER TABLE '' @ table_name @ '' ALTER COLUMN '' @ col @
               '' SET DATA TYPE '' @ new_type @ '';''])
            conflicts sql_statements
      in if sql_statements = [] then ''-- No schema changes detected. No ALTER TABLE needed.''
         else join [NL] sql_statements)"

section \<open>The text-generation backend\<close>

text \<open>
  The values \<open>chat_llm\<close> handles are decoded JSON: the reply of \<open>ollama.chat\<close> and the
  body of the HTTP response. The payload of a number plays no part in \<open>chat_llm\<close>.
\<close>

datatype pyval =
    PyNone
  | PyBool bool
  | PyNum int
  | PyStr string
  | PyList "pyval list"
  | PyDict "(string \<times> pyval) list"

text \<open>
  Exceptions. \<open>External\<close> is whatever a library call raised (a failed import, a refused
  connection, a timeout, an undecodable body), with its message.
\<close>

datatype py_error = KeyError | IndexError | TypeError | External string

text \<open>\<open>v[k]\<close> and \<open>k in v\<close> for a string \<open>k\<close>.\<close>

fun getitem :: "pyval \<Rightarrow> string \<Rightarrow> py_error + pyval" where
  "getitem (PyDict d) k = (case map_of d k of None \<Rightarrow> Inl KeyError | Some v \<Rightarrow> Inr v)"
| "getitem v k = Inl TypeError"

fun contains :: "pyval \<Rightarrow> string \<Rightarrow> py_error + bool" where
  "contains (PyDict d) k = Inr (k \<in> set (keys d))"
| "contains (PyStr s) k = Inr (sublist k s)"
| "contains (PyList xs) k = Inr (PyStr k \<in> set xs)"
| "contains v k = Inl TypeError"

text \<open>
  The module constants \<open>LLM_PROVIDER\<close>, \<open>LLM_ENDPOINT\<close>, \<open>LLM_API_KEY\<close> and the setting
  \<open>OLLAMA_MODEL\<close>, as \<open>_DEF\<close> reads them from the secrets or the environment.
\<close>

record config =
  LLM_PROVIDER :: string
  LLM_ENDPOINT :: string
  LLM_API_KEY :: string
  OLLAMA_MODEL :: string

text \<open>What \<open>requests.post\<close> returns: \<open>resp.status_code\<close>, \<open>resp.text\<close>, \<open>resp.json()\<close>.\<close>

record response =
  status_code :: int
  resp_text :: string
  resp_json :: "py_error + pyval"

text \<open>
  The world outside the module, as parameters: \<open>ollama_chat model prompt\<close> is
  \<open>import ollama; ollama.chat(model=model, messages=[{"role": "user", "content": prompt}])\<close>,
  \<open>requests_post endpoint authorization prompt\<close> is
  \<open>requests.post(endpoint, headers={"Authorization": authorization}, json={"inputs": prompt}, timeout=60)\<close>,
  and \<open>str_of_pyval\<close>, \<open>str_of_error\<close> are Python's \<open>str\<close> on a decoded value and on
  an exception.
\<close>

record runtime =
  ollama_chat :: "string \<Rightarrow> string \<Rightarrow> py_error + pyval"
  requests_post :: "string \<Rightarrow> string \<Rightarrow> string \<Rightarrow> py_error + response"
  str_of_pyval :: "pyval \<Rightarrow> string"
  str_of_error :: "py_error \<Rightarrow> string"

text \<open>\<open>str\<close> of an integer, for \<open>{resp.status_code}\<close>.\<close>

fun digits :: "nat \<Rightarrow> string" where
  "digits n =
     (if n < 10 then [char_of (48 + n)]
      else digits (n div 10) @ [char_of (48 + n mod 10)])"

definition str_of_int :: "int \<Rightarrow> string" where
  "str_of_int i = (if i < 0 then ''-'' @ digits (nat (- i)) else digits (nat i))"

text \<open>
  \<^verbatim>\<open>
  def chat_llm(prompt):
      if LLM_PROVIDER == "ollama":
          import ollama
          resp = ollama.chat(model=_DEF("OLLAMA_MODEL", "llama3.1:8b-instruct"),
                             messages=[{"role": "user", "content": prompt}])
          return resp["message"]["content"]
      elif LLM_PROVIDER == "remote":
          if not LLM_ENDPOINT or not LLM_API_KEY:
              return "X Hugging Face endpoint or API key not set."
          headers = {"Authorization": f"Bearer {LLM_API_KEY}"}
          payload = {"inputs": prompt}
          try:
              resp = requests.post(LLM_ENDPOINT, headers=headers, json=payload, timeout=60)
              if resp.status_code != 200:
                  return f"X Hugging Face API error {resp.status_code}: {resp.text}"
              data = resp.json()
              if isinstance(data, list) and "generated_text" in data[0]:
                  return data[0]["generated_text"]
              return str(data)
          except Exception as e:
              return f"X Error calling Hugging Face API: {e}"
      else:
          return "X Invalid LLM_PROVIDER. Use 'ollama' or 'remote'."
  \<close>
  (\<open>X\<close> stands for the cross mark U+274C, the bytes \<open>E2 9D 8C\<close>.) The result is
  \<open>Inl e\<close> when the exception \<open>e\<close> leaves \<open>chat_llm\<close> and \<open>Inr v\<close> when \<open>v\<close> is returned.
  \<open>remote_try\<close> is the body of the \<open>try\<close> block.
\<close>

abbreviation cross_mark :: string where
  "cross_mark \<equiv> [CHR 0xE2, CHR 0x9D, CHR 0x8C]"

definition remote_try :: "runtime \<Rightarrow> config \<Rightarrow> string \<Rightarrow> py_error + pyval" where
  "remote_try rt cfg prompt =
     (case requests_post rt (LLM_ENDPOINT cfg) (''Bearer '' @ LLM_API_KEY cfg) prompt of
        Inl e \<Rightarrow> Inl e
      | Inr resp \<Rightarrow>
          if status_code resp \<noteq> 200
          then Inr (PyStr (cross_mark @ '' Hugging Face API error '' @
                 str_of_int (status_code resp) @ '': '' @ resp_text resp))
          else (case resp_json resp of
                  Inl e \<Rightarrow> Inl e
                | Inr data \<Rightarrow>
                    (case data of
                       PyList xs \<Rightarrow>
                         (case xs of
                            [] \<Rightarrow> Inl IndexError
                          | x # _ \<Rightarrow>
                              (case contains x ''generated_text'' of
                                 Inl e \<Rightarrow> Inl e
                               | Inr True \<Rightarrow> getitem x ''generated_text''
                               | Inr False \<Rightarrow> Inr (PyStr (str_of_pyval rt data))))
                     | _ \<Rightarrow> Inr (PyStr (str_of_pyval rt data)))))"

definition chat_llm :: "runtime \<Rightarrow> config \<Rightarrow> string \<Rightarrow> py_error + pyval" where
  "chat_llm rt cfg prompt =
     (if LLM_PROVIDER cfg = ''ollama'' then
        (case ollama_chat rt (OLLAMA_MODEL cfg) prompt of
           Inl e \<Rightarrow> Inl e
         | Inr resp \<Rightarrow>
             (case getitem resp ''message'' of
                Inl e \<Rightarrow> Inl e
              | Inr message \<Rightarrow> getitem message ''content''))
      else if LLM_PROVIDER cfg = ''remote'' then
        (if LLM_ENDPOINT cfg = [] \<or> LLM_API_KEY cfg = []
         then Inr (PyStr (cross_mark @ '' Hugging Face endpoint or API key not set.''))
         else (case remote_try rt cfg prompt of
                 Inl e \<Rightarrow>
                   Inr (PyStr (cross_mark @ '' Error calling Hugging Face API: '' @
                     str_of_error rt e))
               | Inr v \<Rightarrow> Inr v))
      else Inr (PyStr (cross_mark @ '' Invalid LLM_PROVIDER. Use '' @ [CHR 0x27] @ ''ollama'' @
             [CHR 0x27] @ '' or '' @ [CHR 0x27] @ ''remote'' @ [CHR 0x27] @ ''.'')))"

text \<open>
  Two concrete environments for evaluating \<open>chat_llm\<close>. \<open>default_config\<close> holds the
  defaults that \<open>_DEF\<close> falls back to when neither the secrets nor the environment set
  a value. \<open>unreachable_runtime\<close> is a machine on which no backend answers: both library
  calls raise a connection error.
\<close>

definition default_config :: config where
  "default_config =
     \<lparr>LLM_PROVIDER = ''ollama'', LLM_ENDPOINT = [], LLM_API_KEY = [],
      OLLAMA_MODEL = ''llama3.1:8b-instruct''\<rparr>"

definition unreachable_runtime :: runtime where
  "unreachable_runtime =
     \<lparr>ollama_chat = (\<lambda>model prompt. Inl (External ''ConnectionError'')),
      requests_post = (\<lambda>endpoint authorization prompt. Inl (External ''ConnectionError'')),
      str_of_pyval = (\<lambda>v. case v of PyStr s \<Rightarrow> s | _ \<Rightarrow> ''<value>''),
      str_of_error = (\<lambda>e. case e of
          External m \<Rightarrow> m
        | KeyError \<Rightarrow> ''KeyError''
        | IndexError \<Rightarrow> ''IndexError''
        | TypeError \<Rightarrow> ''TypeError'')\<rparr>"

section \<open>Explanation\<close>

text \<open>
  \<^verbatim>\<open>
  def _format_schema(s):
      return "\n".join([f"- {k}: {v}" for k, v in sorted(s.items())])
  \<close>
  \<open>sorted\<close> orders the items as tuples: by key, then by value, strings by code point,
  which is the order of their UTF-8 bytes.
\<close>

definition format_schema :: "schema \<Rightarrow> string" where
  "format_schema s = join [NL] [''- '' @ k @ '': '' @ v. (k, v) \<leftarrow> sort s]"

text \<open>
  \<open>explain_changes_with_ai\<close> returns what the Python function returns or raises, and
  beside it the prompts with which it has called \<open>chat_llm\<close>, in order. The schemas
  formatted into the prompt are the arguments as given: the upper-casing inside
  \<open>compare_schemas\<close> does not reach them.
\<close>

abbreviation check_mark :: string where
  "check_mark \<equiv> [CHR 0xE2, CHR 0x9C, CHR 0x85]"

definition explain_changes_with_ai ::
  "runtime \<Rightarrow> config \<Rightarrow> schema \<Rightarrow> schema \<Rightarrow> string \<Rightarrow> (py_error + pyval) \<times> string list" where
  "explain_changes_with_ai rt cfg existing new table_name =
     (let (new_cols, missing_cols, conflicts) = compare_schemas existing new
      in if new_cols = [] \<and> missing_cols = [] \<and> conflicts = []
         then (Inr (PyStr (check_mark @ '' No schema changes detected for table `'' @
                 table_name @ ''`.  '' @ [NL] @
                 ''Both existing and candidate schemas are identical.  '' @ [NL] @
                 ''No risks, conflicts, or SQL migrations are required.'')), [])
         else
           (let prompt = [NL] @
              ''You are an expert Snowflake engineer. Compare the two table schemas and explain the changes clearly.'' @ [NL] @
              [NL] @
              ''Table: '' @ table_name @ [NL] @
              [NL] @
              ''Existing schema:'' @ [NL] @
              format_schema existing @ [NL] @
              [NL] @
              ''New schema (candidate):'' @ [NL] @
              format_schema new @ [NL] @
              [NL] @
              ''Describe:'' @ [NL] @
              ''1) Added columns (with types)'' @ [NL] @
              ''2) Removed or missing columns and their impact'' @ [NL] @
              ''3) Data type conflicts and safe migration advice'' @ [NL] @
              ''4) Risks (NULLability, backfills, ingestion issues)'' @ [NL] @
              ''Keep it concise with bullet points.'' @ [NL]
            in (chat_llm rt cfg prompt, [prompt])))"

section \<open>Schema inference\<close>



section \<open>Dictionaries: insertion and comprehension\<close>

lemma map_of_setitem: "map_of (setitem d k v) = (map_of d)(k \<mapsto> v)"
  by (induction d k v rule: setitem.induct) auto

lemma set_keys_setitem: "fst ` set (setitem d k v) = insert k (fst ` set d)"
  by (induction d k v rule: setitem.induct) auto

lemma distinct_setitem: "distinct (keys d) \<Longrightarrow> distinct (keys (setitem d k v))"
  by (induction d k v rule: setitem.induct) (auto simp: set_keys_setitem)

lemma setitem_fresh: "k \<notin> set (keys d) \<Longrightarrow> setitem d k v = d @ [(k, v)]"
  by (induction d k v rule: setitem.induct) auto

lemma fold_setitem_distinct:
  "distinct (keys (d @ items)) \<Longrightarrow> fold (\<lambda>(k, v) d. setitem d k v) items d = d @ items"
proof (induction items arbitrary: d)
  case Nil
  then show ?case by simp
next
  case (Cons x items)
  obtain k v where x: "x = (k, v)" by (cases x)
  from Cons.prems have fresh: "k \<notin> set (keys d)" by (auto simp: x)
  from Cons.prems have "distinct (keys ((d @ [(k, v)]) @ items))" by (simp add: x)
  from Cons.IH [OF this] show ?case by (simp add: x setitem_fresh [OF fresh])
qed

lemma dict_of_items_distinct: "distinct (keys items) \<Longrightarrow> dict_of_items items = items"
  using fold_setitem_distinct [of "[]" items] by (simp add: dict_of_items_def)


lemma fold_setitem_dist:
  "distinct (keys d) \<Longrightarrow> distinct (keys (fold (\<lambda>(k, v) d. setitem d k v) items d))"
  by (induction items arbitrary: d) (auto simp: distinct_setitem)

lemma fold_setitem_map_of:
  "map_of (fold (\<lambda>(k, v) d. setitem d k v) items d) = map_of d ++ map_of (rev items)"
  by (induction items arbitrary: d)
    (auto simp: map_of_setitem map_add_upd_left fun_eq_iff map_add_def split: option.splits)

lemma distinct_dict_of_items: "distinct (keys (dict_of_items items))"
  by (simp add: dict_of_items_def fold_setitem_dist)


lemma map_of_dict_of_items: "map_of (dict_of_items items) = map_of (rev items)"
  by (simp add: dict_of_items_def fold_setitem_map_of)

lemma set_keys_dom: "set (keys d) = {col. map_of d col \<noteq> None}"
  by (auto simp: map_of_eq_None_iff)

lemma distinct_keys_filter: "distinct (keys d) \<Longrightarrow> distinct (keys (filter P d))"
  by (simp add: distinct_map_filter)

lemma keys_filter_dict:
  assumes "distinct (keys d)"
  shows "fst ` set (filter (\<lambda>(k, v). P k v) d) = {k. \<exists>v. map_of d k = Some v \<and> P k v}"
proof (intro set_eqI iffI)
  fix k assume "k \<in> fst ` set (filter (\<lambda>(k, v). P k v) d)"
  then obtain v where "(k, v) \<in> set d" "P k v" by auto
  with assms show "k \<in> {k. \<exists>v. map_of d k = Some v \<and> P k v}" by auto
next
  fix k assume "k \<in> {k. \<exists>v. map_of d k = Some v \<and> P k v}"
  then obtain v where "map_of d k = Some v" "P k v" by auto
  then have "(k, v) \<in> set (filter (\<lambda>(k, v). P k v) d)" by (auto dest: map_of_SomeD)
  then show "k \<in> fst ` set (filter (\<lambda>(k, v). P k v) d)" by force
qed

section \<open>Properties of the schema comparison\<close>

text \<open>The upper-cased schema is a dictionary; on a key met twice the last value wins.\<close>

lemma distinct_upper_keys: "distinct (keys (upper_keys d))"
  by (simp add: upper_keys_def distinct_dict_of_items)

lemma upper_keys_item:
  "(col, t) \<in> set (upper_keys d) \<Longrightarrow> map_of (upper_keys d) col = Some t"
  by (simp add: distinct_upper_keys)

lemma upper_items_map: "[(upper k, v). (k, v) \<leftarrow> d] = map (\<lambda>(k, v). (upper k, v)) d"
  by (induction d) auto

lemma map_of_upper_keys:
  "map_of (upper_keys d) = map_of (rev (map (\<lambda>(k, v). (upper k, v)) d))"
  using upper_items_map [of d] by (simp add: upper_keys_def map_of_dict_of_items)

text \<open>The three comprehensions, as filters of the two upper-cased schemas.\<close>

lemma absent_items_eq:
  "[(col, t). (col, t) \<leftarrow> N, map_of E col = None] = filter (\<lambda>(col, t). map_of E col = None) N"
  by (induction N) auto

lemma conflict_items_eq:
  "[(col, (old_type, new_type)).
      (col, old_type) \<leftarrow> E,
      new_type \<leftarrow> (case map_of N col of None \<Rightarrow> [] | Some t \<Rightarrow> [t]),
      old_type \<noteq> new_type]
   = map (\<lambda>(col, old_type). (col, (old_type, the (map_of N col))))
       (filter (\<lambda>(col, old_type). \<exists>t. map_of N col = Some t \<and> old_type \<noteq> t) E)"
  by (induction E) (auto split: option.splits)

lemma keys_conflict_map:
  "keys (map (\<lambda>(col, old_type). (col, (old_type, f col))) xs) = keys xs"
  by (induction xs) auto

lemma dict_of_conflict_items:
  "distinct (keys E) \<Longrightarrow>
   dict_of_items (map (\<lambda>(col, old_type). (col, (old_type, f col))) (filter P E))
     = map (\<lambda>(col, old_type). (col, (old_type, f col))) (filter P E)"
  by (rule dict_of_items_distinct) (simp only: keys_conflict_map distinct_keys_filter)

lemma compare_schemas_eq:
  "compare_schemas existing new =
     (filter (\<lambda>(col, t). map_of (upper_keys existing) col = None) (upper_keys new),
      filter (\<lambda>(col, t). map_of (upper_keys new) col = None) (upper_keys existing),
      map (\<lambda>(col, old_type). (col, (old_type, the (map_of (upper_keys new) col))))
        (filter (\<lambda>(col, old_type). \<exists>t. map_of (upper_keys new) col = Some t \<and> old_type \<noteq> t)
           (upper_keys existing)))"
  unfolding compare_schemas_def Let_def absent_items_eq conflict_items_eq
  by (simp only: dict_of_items_distinct distinct_keys_filter distinct_upper_keys
        dict_of_conflict_items)

lemma keys_new_cols:
  "set (keys (fst (compare_schemas existing new)))
     = {col. map_of (upper_keys new) col \<noteq> None \<and> map_of (upper_keys existing) col = None}"
proof -
  have "set (keys (fst (compare_schemas existing new)))
          = fst ` set (filter (\<lambda>(col, t). map_of (upper_keys existing) col = None) (upper_keys new))"
    by (simp add: compare_schemas_eq)
  also have "\<dots> = {col. \<exists>t. map_of (upper_keys new) col = Some t \<and>
                        map_of (upper_keys existing) col = None}"
    by (rule keys_filter_dict [OF distinct_upper_keys])
  finally show ?thesis by simp
qed

lemma keys_missing_cols:
  "set (keys (fst (snd (compare_schemas existing new))))
     = {col. map_of (upper_keys existing) col \<noteq> None \<and> map_of (upper_keys new) col = None}"
proof -
  have "set (keys (fst (snd (compare_schemas existing new))))
          = fst ` set (filter (\<lambda>(col, t). map_of (upper_keys new) col = None) (upper_keys existing))"
    by (simp add: compare_schemas_eq)
  also have "\<dots> = {col. \<exists>t. map_of (upper_keys existing) col = Some t \<and>
                        map_of (upper_keys new) col = None}"
    by (rule keys_filter_dict [OF distinct_upper_keys])
  finally show ?thesis by simp
qed

lemma keys_conflicts:
  "set (keys (snd (snd (compare_schemas existing new))))
     = {col. \<exists>old_type new_type.
          map_of (upper_keys existing) col = Some old_type \<and>
          map_of (upper_keys new) col = Some new_type \<and> old_type \<noteq> new_type}"
proof -
  have "set (keys (snd (snd (compare_schemas existing new))))
          = fst ` set (filter (\<lambda>(col, old_type).
                \<exists>t. map_of (upper_keys new) col = Some t \<and> old_type \<noteq> t) (upper_keys existing))"
    by (simp only: compare_schemas_eq snd_conv keys_conflict_map set_map)
  also have "\<dots> = {col. \<exists>old_type. map_of (upper_keys existing) col = Some old_type \<and>
                        (\<exists>t. map_of (upper_keys new) col = Some t \<and> old_type \<noteq> t)}"
    by (rule keys_filter_dict [OF distinct_upper_keys])
  finally show ?thesis by simp
qed

lemmas keys_compare_schemas = keys_new_cols keys_missing_cols keys_conflicts

text \<open>
  Claim C1. The key sets of Added, Removed and Conflicted are pairwise disjoint, and
  every column of either upper-cased schema is in exactly one of Added, Removed,
  Conflicted and Unchanged (in both schemas with the same type): the four sets are
  pairwise disjoint and their union is the set of all columns of the two schemas.
\<close>

theorem compare_schemas_classifies:
  "(let (new_cols, missing_cols, conflicts) = compare_schemas existing new;
        A = set (keys new_cols);
        R = set (keys missing_cols);
        C = set (keys conflicts);
        U = {col. \<exists>t. map_of (upper_keys existing) col = Some t \<and>
                       map_of (upper_keys new) col = Some t}
    in A \<inter> R = {} \<and> A \<inter> C = {} \<and> R \<inter> C = {} \<and>
       A \<inter> U = {} \<and> R \<inter> U = {} \<and> C \<inter> U = {} \<and>
       A \<union> R \<union> C \<union> U = set (keys (upper_keys existing)) \<union> set (keys (upper_keys new)))"
  unfolding Let_def case_prod_beta keys_compare_schemas
  unfolding set_keys_dom
  by (intro conjI; auto)

text \<open>
  Claim C5. Comparing a schema with itself gives empty Added, empty Removed and empty
  Conflicted.
\<close>

theorem compare_schemas_same: "compare_schemas A A = ([], [], [])"
  by (auto simp: compare_schemas_eq filter_empty_conv upper_keys_item)

text \<open>
  Claim C6. Added of \<open>(A, B)\<close> is Removed of \<open>(B, A)\<close>, and Removed of \<open>(A, B)\<close> is Added of
  \<open>(B, A)\<close>: the same items in the same order.
\<close>

theorem compare_schemas_swap:
  "fst (compare_schemas A B) = fst (snd (compare_schemas B A)) \<and>
   fst (snd (compare_schemas A B)) = fst (compare_schemas B A)"
  by (simp add: compare_schemas_eq)

text \<open>
  Claim C10. Types are compared as the strings they are. A column is Conflicted exactly
  when both upper-cased schemas have it with different type strings; upper-casing
  changes the keys and leaves every value as given; so a column of type \<open>text\<close> in one
  schema and \<open>TEXT\<close> in the other is Conflicted.
\<close>

theorem compare_schemas_case_sensitive_types:
  "set (keys (snd (snd (compare_schemas existing new))))
     = {col. \<exists>old_type new_type.
          map_of (upper_keys existing) col = Some old_type \<and>
          map_of (upper_keys new) col = Some new_type \<and> old_type \<noteq> new_type} \<and>
   map_of (upper_keys existing) = map_of (rev (map (\<lambda>(k, v). (upper k, v)) existing)) \<and>
   compare_schemas [(''name'', ''text'')] [(''NAME'', ''TEXT'')]
     = ([], [], [(''NAME'', (''text'', ''TEXT''))])"
proof (intro conjI)
  show "compare_schemas [(''name'', ''text'')] [(''NAME'', ''TEXT'')]
     = ([], [], [(''NAME'', (''text'', ''TEXT''))])"
    by (simp add: compare_schemas_def upper_keys_def dict_of_items_def upper_def upper_char_def)
qed (simp_all only: keys_compare_schemas map_of_upper_keys)

section \<open>Properties of the SQL generation\<close>

lemma fold_append_map: "fold (\<lambda>x acc. acc @ [f x]) xs acc = acc @ map f xs"
  by (induction xs arbitrary: acc) auto

lemma generate_sql_with_ai_eq:
  "generate_sql_with_ai existing new table_name =
     (let (new_cols, missing_cols, conflicts) = compare_schemas existing new;
          sql_statements =
            map (\<lambda>(col, dtype).
              ''ALTER TABLE '' @ table_name @ '' ADD COLUMN '' @ col @ '' '' @ dtype @ '' NULL;'')
              new_cols @
            map (\<lambda>(col, dtype).
              ''-- NOTE: Column '' @ col @ '' ('' @ dtype @
              '') exists in old schema but not in new. Drop only if intentional.'')
              missing_cols @
            map (\<lambda>(col, (old_type, new_type)).
              ''ALTER TABLE '' @ table_name @ '' ALTER COLUMN '' @ col @
              '' SET DATA TYPE '' @ new_type @ '';'')
              conflicts
      in if sql_statements = [] then ''-- No schema changes detected. No ALTER TABLE needed.''
         else join [NL] sql_statements)"
  unfolding generate_sql_with_ai_def Let_def case_prod_beta
  by (simp only: fold_append_map append_Nil append_assoc)

lemma join_eq_Nil: "join sep xs = [] \<Longrightarrow> xs = [] \<or> hd xs = []"
  by (induction sep xs rule: join.induct) auto

text \<open>
  Claim C4. When the comparison finds nothing Added, Removed or Conflicted, the result is
  the fixed comment saying that no changes are needed; and the result is never the empty
  string, for any input.
\<close>

theorem generate_sql_with_ai_nonempty:
  "(compare_schemas existing new = ([], [], []) \<longrightarrow>
      generate_sql_with_ai existing new table_name
        = ''-- No schema changes detected. No ALTER TABLE needed.'') \<and>
   generate_sql_with_ai existing new table_name \<noteq> []"
proof
  show "compare_schemas existing new = ([], [], []) \<longrightarrow>
      generate_sql_with_ai existing new table_name
        = ''-- No schema changes detected. No ALTER TABLE needed.''"
    by (simp add: generate_sql_with_ai_eq)
next
  obtain a r c where cs: "compare_schemas existing new = (a, r, c)"
    by (cases "compare_schemas existing new") auto
  show "generate_sql_with_ai existing new table_name \<noteq> []"
  proof
    assume e: "generate_sql_with_ai existing new table_name = []"
    show False
    proof (cases a)
      case (Cons x xs)
      with e cs show False
        by (auto simp: generate_sql_with_ai_eq dest!: join_eq_Nil split: prod.splits)
    next
      case a: Nil
      show False
      proof (cases r)
        case (Cons x xs)
        with e cs a show False
          by (auto simp: generate_sql_with_ai_eq dest!: join_eq_Nil split: prod.splits)
      next
        case r: Nil
        show False
        proof (cases c)
          case (Cons x xs)
          with e cs a r show False
            by (auto simp: generate_sql_with_ai_eq dest!: join_eq_Nil split: prod.splits)
        next
          case Nil
          with e cs a r show False by (simp add: generate_sql_with_ai_eq)
        qed
      qed
    qed
  qed
qed

text \<open>
  The theorem at two schemas that differ only in the case of a column name.
\<close>

theorem generate_sql_with_ai_nonempty_witness:
  "compare_schemas [(''A'', ''TEXT'')] [(''a'', ''TEXT'')] = ([], [], []) \<and>
   generate_sql_with_ai [(''A'', ''TEXT'')] [(''a'', ''TEXT'')] ''T''
     = ''-- No schema changes detected. No ALTER TABLE needed.'' \<and>
   generate_sql_with_ai [(''A'', ''TEXT'')] [(''a'', ''TEXT'')] ''T'' \<noteq> []"
proof -
  have h: "compare_schemas [(''A'', ''TEXT'')] [(''a'', ''TEXT'')] = ([], [], [])"
    by (simp add: compare_schemas_def upper_keys_def dict_of_items_def upper_def upper_char_def)
  from generate_sql_with_ai_nonempty [of "[(''A'', ''TEXT'')]" "[(''a'', ''TEXT'')]" "''T''"] h
  show ?thesis by blast
qed

section \<open>The order of the generated statements\<close>






section \<open>Properties of the explanation and of the backend call\<close>

text \<open>
  Claim C3, as the code has it. When the comparison finds nothing Added, Removed or
  Conflicted, \<open>explain_changes_with_ai\<close> returns without raising and without having called
  \<open>chat_llm\<close> (the list of prompts is empty), and what it returns is the fixed template
  with the table name inserted: a text that depends on \<open>table_name\<close> alone, whatever
  the two schemas, the backend and the settings are.
\<close>

theorem explain_changes_with_ai_no_changes:
  assumes "compare_schemas existing new = ([], [], [])"
  shows "explain_changes_with_ai rt cfg existing new table_name =
     (Inr (PyStr (check_mark @ '' No schema changes detected for table `'' @
        table_name @ ''`.  '' @ [NL] @
        ''Both existing and candidate schemas are identical.  '' @ [NL] @
        ''No risks, conflicts, or SQL migrations are required.'')), [])"
  using assms by (simp add: explain_changes_with_ai_def)

text \<open>
  The theorem at two schemas that differ only in the case of a column name.
\<close>

theorem explain_changes_with_ai_no_changes_witness:
  "compare_schemas [(''id'', ''NUMBER'')] [(''ID'', ''NUMBER'')] = ([], [], []) \<and>
   explain_changes_with_ai unreachable_runtime default_config
       [(''id'', ''NUMBER'')] [(''ID'', ''NUMBER'')] ''ORDERS'' =
     (Inr (PyStr (check_mark @ '' No schema changes detected for table `ORDERS`.  '' @ [NL] @
        ''Both existing and candidate schemas are identical.  '' @ [NL] @
        ''No risks, conflicts, or SQL migrations are required.'')), [])"
proof -
  have h: "compare_schemas [(''id'', ''NUMBER'')] [(''ID'', ''NUMBER'')] = ([], [], [])"
    by (simp add: compare_schemas_def upper_keys_def dict_of_items_def upper_def upper_char_def)
  from explain_changes_with_ai_no_changes [OF h, of unreachable_runtime default_config "''ORDERS''"] h
  show ?thesis by simp
qed

text \<open>
  The message is not the same for every table name: two empty schemas have an empty
  comparison, and the messages returned for the tables \<open>ORDERS\<close> and \<open>USERS\<close> differ.
\<close>

theorem explain_changes_with_ai_table_name_counterexample:
  "compare_schemas [] [] = ([], [], []) \<and>
   fst (explain_changes_with_ai unreachable_runtime default_config [] [] ''ORDERS'')
     \<noteq> fst (explain_changes_with_ai unreachable_runtime default_config [] [] ''USERS'')"
  by (simp add: explain_changes_with_ai_def compare_schemas_def upper_keys_def dict_of_items_def)

lemma chat_llm_ollama_raises:
  "LLM_PROVIDER cfg = ''ollama'' \<Longrightarrow> ollama_chat rt (OLLAMA_MODEL cfg) prompt = Inl e \<Longrightarrow>
   chat_llm rt cfg prompt = Inl e"
  by (simp add: chat_llm_def)

lemma chat_llm_not_ollama_returns:
  "LLM_PROVIDER cfg \<noteq> ''ollama'' \<Longrightarrow> \<exists>v. chat_llm rt cfg prompt = Inr v"
  by (simp add: chat_llm_def split: sum.splits)

text \<open>
  Claim C9, at the default settings on a machine where no backend answers. With the
  provider \<open>ollama\<close> the connection error raised by \<open>ollama.chat\<close> leaves \<open>chat_llm\<close>:
  the result is the exception, not a text. With the provider \<open>remote\<close> the same
  failure of \<open>requests.post\<close> is caught and returned as a text.
\<close>

theorem chat_llm_ollama_unreachable:
  "chat_llm unreachable_runtime default_config ''Explain the changes''
     = Inl (External ''ConnectionError'') \<and>
   chat_llm unreachable_runtime (default_config\<lparr>LLM_PROVIDER := ''remote'',
       LLM_ENDPOINT := ''https://example.invalid/model'', LLM_API_KEY := ''key''\<rparr>)
       ''Explain the changes''
     = Inr (PyStr (cross_mark @ '' Error calling Hugging Face API: ConnectionError''))"
  by (simp add: chat_llm_def remote_try_def unreachable_runtime_def default_config_def)

section \<open>Properties of the schema inference\<close>

















section \<open>Lines and words of a text\<close>

lemma split_on_not_Nil [simp]: "split_on c s \<noteq> []"
  by (induction s) auto








declare split_on.simps [simp del]




section \<open>Generated statements and DROP COLUMN\<close>
















end
